theory Spec2Isabelle
  imports Main "HOL-Library.AList"
begin

section \<open>The Pjax navigation coordinator of DjinnJS\<close>

text \<open>
  A shallow embedding of the class \<open>Pjax\<close>: its request queue, the reconciliation of the
  worker's replies, the content swap, history, link collection, prefetching and the
  service worker's cachebust message. Everything the class does to the outside (console,
  location, message bus, workers, transition manager) is recorded, in order, in a list of
  effects; a \<open>TypeError\<close> raised by reading a property of \<open>null\<close> is the result
  \<open>Inl TypeError\<close>, and the exception that \<open>querySelector\<close> raises for a selector
  text that is no selector is \<open>Inl DOMException\<close>.
\<close>

subsection \<open>Data model\<close>

datatype historyMode = Push | Replace

record NavigaitonRequest =
  body :: "string option"
  title :: "string option"
  url :: string
  history :: historyMode
  requestUid :: string
  transition :: "string option"
  transitionData :: "string option"
  targetSelector :: "string option"

datatype error = TypeError | DOMException

subsection \<open>The navigation request queue\<close>

text \<open>
  \<open>removeNavigationRequest\<close>: the loop runs over the indices from 0, splices the first
  entry whose \<open>requestUid\<close> is the identifier and breaks.
\<close>

fun removeNavigationRequest :: "string \<Rightarrow> NavigaitonRequest list \<Rightarrow> NavigaitonRequest list" where
  "removeNavigationRequest requestId [] = []"
| "removeNavigationRequest requestId (r # rs) =
     (if requestUid r = requestId then rs else r # removeNavigationRequest requestId rs)"

text \<open>
  \<open>getNavigaitonRequest\<close>: the loop returns the first entry whose \<open>requestUid\<close> is the
  identifier, and \<open>null\<close> (here \<open>None\<close>) after the loop.
\<close>

fun getNavigaitonRequest :: "string \<Rightarrow> NavigaitonRequest list \<Rightarrow> NavigaitonRequest option" where
  "getNavigaitonRequest requestId [] = None"
| "getNavigaitonRequest requestId (r # rs) =
     (if requestUid r = requestId then Some r else getNavigaitonRequest requestId rs)"

subsection \<open>Documents and selectors\<close>

text \<open>
  A document is the list of its elements in document order (for the current document:
  the descendants of \<open>document.body\<close>). An element carries what the selectors of this
  class can see: its tag name, its attributes, the tokens of its class attribute, the
  tag names of its ancestors, its inner HTML, and the number of click listeners that
  \<open>collectLinks\<close> has added to it.
\<close>

record element =
  tagName :: string
  attributes :: "(string \<times> string) list"
  classList :: "string list"
  ancestors :: "string list"
  innerHTML :: string
  clickListeners :: nat

record htmlDocument =
  docTitle :: string
  docElements :: "element list"

definition getAttribute :: "string \<Rightarrow> element \<Rightarrow> string option" where
  "getAttribute name e = map_of (attributes e) name"

definition hasAttribute :: "string \<Rightarrow> element \<Rightarrow> bool" where
  "hasAttribute name e = (getAttribute name e \<noteq> None)"

definition setAttribute :: "string \<Rightarrow> string \<Rightarrow> element \<Rightarrow> element" where
  "setAttribute name v e = e\<lparr>attributes := AList.update name v (attributes e)\<rparr>"

text \<open>\<open>link.href\<close>, without the resolution against the base URL.\<close>

definition href :: "element \<Rightarrow> string" where
  "href e = (case getAttribute ''href'' e of None \<Rightarrow> [] | Some h \<Rightarrow> h)"

text \<open>
  The class builds two selector texts for a region: \<open>main\<close>, and the template literal
  \<open>[pjax-id="x"]\<close> with the region id x put between the quotes as it is.
\<close>

definition pjaxIdSelector :: "string \<Rightarrow> string" where
  "pjaxIdSelector x = ''[pjax-id='' @ [CHR 0x22] @ x @ [CHR 0x22] @ '']''"

text \<open>
  Between the quotes a region id stands for itself as long as it has no double quote,
  which would end the string, no backslash, which would start an escape, and no control
  character (a line break is not allowed in a string).
\<close>

definition plainValue :: "string \<Rightarrow> bool" where
  "plainValue x \<longleftrightarrow>
     list_all (\<lambda>c. c \<noteq> CHR 0x22 \<and> c \<noteq> CHR 0x5C \<and> 32 \<le> (of_char c :: nat) \<and>
                  (of_char c :: nat) \<noteq> 127) x"

text \<open>The region id of a selector text of that second form, when the id is plain.\<close>

definition regionIdOf :: "string \<Rightarrow> string option" where
  "regionIdOf text =
     (let n = length text; x = take (n - 12) (drop 10 text)
      in if 12 \<le> n \<and> text = pjaxIdSelector x \<and> plainValue x then Some x else None)"

text \<open>
  \<open>querySelector\<close>: the first matching element in document order, or \<open>null\<close>. The text
  \<open>main\<close> matches the elements with that tag name, and \<open>[pjax-id="x"]\<close> with a plain x
  the elements whose attribute \<open>pjax-id\<close> is x. What any other text selects, or whether
  it is rejected with an exception, is decided by the selector engine of the browser,
  which is the parameter \<open>engine\<close>.
\<close>

type_synonym selectorEngine = "string \<Rightarrow> element list \<Rightarrow> error + element option"

definition querySelector :: "selectorEngine \<Rightarrow> string \<Rightarrow> element list \<Rightarrow> error + element option" where
  "querySelector engine text doc =
     (if text = ''main'' then Inr (List.find (\<lambda>e. tagName e = ''main'') doc)
      else case regionIdOf text of
             Some x \<Rightarrow> Inr (List.find (\<lambda>e. getAttribute ''pjax-id'' e = Some x) doc)
           | None \<Rightarrow> engine text doc)"

subsection \<open>The browser around the class\<close>

datatype NetworkType = G4 | G3 | G2 | Slow2G

text \<open>
  \<open>window.history\<close> is the browser's, not the repository's: it is modelled as the
  session history of the HTML standard, the list of entries (whose number is
  \<open>history.length\<close>) and the index of the current one, which a step back or forward
  moves. \<open>pushState\<close> drops the entries after the current one and appends the new entry,
  which becomes current; \<open>replaceState\<close> overwrites the current entry. An entry holds
  the state object (here its \<open>url\<close>), the title and the URL.
\<close>

record historyEntry =
  stateUrl :: string
  entryTitle :: string
  entryUrl :: string

record sessionHistory =
  entries :: "historyEntry list"
  current :: nat

definition historyLength :: "sessionHistory \<Rightarrow> nat" where
  "historyLength h = length (entries h)"

definition pushState :: "historyEntry \<Rightarrow> sessionHistory \<Rightarrow> sessionHistory" where
  "pushState e h = \<lparr>entries = take (Suc (current h)) (entries h) @ [e], current = Suc (current h)\<rparr>"

definition replaceState :: "historyEntry \<Rightarrow> sessionHistory \<Rightarrow> sessionHistory" where
  "replaceState e h = h\<lparr>entries := (entries h)[current h := e]\<rparr>"

datatype workerMessage =
    PjaxRequest string string string
  | PrefetchRequest "string list"
  | RevisionCheck string

datatype serviceWorkerMessage = ClearContentCache

datatype effect =
    ConsoleError string
  | LocationHref string
  | LocationHash string
  | RuntimeParse string string
  | StartPageTransition
  | EndPageTransition
  | TransitionManager string "string option" "string option" "string option"
  | WorkerPostMessage workerMessage
  | ServiceWorkerPostMessage serviceWorkerMessage
  | Notify string

text \<open>
  The fields of the class (\<open>state.activeRequestUid\<close>, \<open>navigationRequestQueue\<close>, the
  targets observed by \<open>io\<close>, as indices into the document) and the globals it reads and
  writes: the document, the history, the two storages, the signals of \<open>env\<close>, whether
  \<open>navigator\<close> has a \<open>serviceWorker\<close>, the \<open>debug\<close> flag, and the effects so far,
  oldest first.
\<close>

record Pjax =
  activeRequestUid :: "string option"
  navigationRequestQueue :: "NavigaitonRequest list"
  io :: "nat list"
  document :: "element list"
  windowHistory :: sessionHistory
  sessionStorage :: "string \<rightharpoonup> string"
  localStorage :: "string \<rightharpoonup> string"
  connection :: NetworkType
  dataSaver :: bool
  serviceWorkerInNavigator :: bool
  debug :: bool
  effects :: "effect list"

definition emit :: "effect list \<Rightarrow> Pjax \<Rightarrow> Pjax" where
  "emit es s = s\<lparr>effects := effects s @ es\<rparr>"

subsection \<open>navigate\<close>

text \<open>
  The identifier that \<open>uuid()\<close> returns and \<open>location.href\<close> are inputs. A parameter
  left out (\<open>undefined\<close>) takes its default: \<open>null\<close>, and \<open>"push"\<close> for the history.
\<close>

definition navigate ::
  "string \<Rightarrow> string \<Rightarrow> string \<Rightarrow> string option \<Rightarrow> string option \<Rightarrow> historyMode option \<Rightarrow>
   string option \<Rightarrow> Pjax \<Rightarrow> Pjax" where
  "navigate uuid locationHref url' transition' transitionData' history' targetEl s =
     (let navigationRequest =
            \<lparr>body = None, title = None, url = url',
             history = (case history' of None \<Rightarrow> Push | Some h \<Rightarrow> h),
             requestUid = uuid, transition = transition', transitionData = transitionData',
             targetSelector = targetEl\<rparr>;
          s1 = emit [StartPageTransition] s;
          s2 = s1\<lparr>activeRequestUid := Some uuid\<rparr>;
          s3 = s2\<lparr>navigationRequestQueue := navigationRequestQueue s2 @ [navigationRequest]\<rparr>
      in emit [WorkerPostMessage (PjaxRequest uuid url' locationHref)] s3)"

subsection \<open>updateHistory\<close>

definition updateHistory :: "string \<Rightarrow> string \<Rightarrow> historyMode \<Rightarrow> Pjax \<Rightarrow> Pjax" where
  "updateHistory title' url' history' s =
     (if history' = Replace
      then s\<lparr>windowHistory :=
               replaceState \<lparr>stateUrl = url', entryTitle = title', entryUrl = url'\<rparr> (windowHistory s)\<rparr>
      else s\<lparr>windowHistory :=
               pushState \<lparr>stateUrl = url', entryTitle = title', entryUrl = url'\<rparr> (windowHistory s)\<rparr>)"

subsection \<open>collectLinks\<close>

text \<open>
  The selector \<open>a[href]:not([pjax-tracked]):not([no-pjax]):not([target]):not(.no-pjax)\<close>.
\<close>

definition unregisteredLink :: "element \<Rightarrow> bool" where
  "unregisteredLink e \<longleftrightarrow>
     tagName e = ''a'' \<and> hasAttribute ''href'' e \<and> \<not> hasAttribute ''pjax-tracked'' e \<and>
     \<not> hasAttribute ''no-pjax'' e \<and> \<not> hasAttribute ''target'' e \<and>
     ''no-pjax'' \<notin> set (classList e)"

definition trackLink :: "element \<Rightarrow> element" where
  "trackLink link =
     (setAttribute ''pjax-tracked'' ''true'' link)\<lparr>clickListeners := Suc (clickListeners link)\<rparr>"

definition collectLinks :: "Pjax \<Rightarrow> Pjax" where
  "collectLinks s =
     s\<lparr>document := map (\<lambda>link. if unregisteredLink link then trackLink link else link) (document s)\<rparr>"

subsection \<open>handlePjaxResponse\<close>

text \<open>
  \<open>url.match(/\#.*/g)[0].replace("#", "")\<close>: \<open>match\<close> is \<open>null\<close> when the URL has no
  \<open>#\<close>, and reading its element 0 raises; otherwise the first match runs from the first
  \<open>#\<close> to the end of the line (a line feed or carriage return), and \<open>replace\<close> deletes
  that \<open>#\<close>.
\<close>

definition lineTerminator :: "char \<Rightarrow> bool" where
  "lineTerminator c \<longleftrightarrow> c = CHR 0x0A \<or> c = CHR 0x0D"

definition hashFragment :: "string \<Rightarrow> error + string" where
  "hashFragment url' =
     (if CHR ''#'' \<in> set url'
      then Inr (tl (takeWhile (\<lambda>c. \<not> lineTerminator c) (dropWhile (\<lambda>c. c \<noteq> CHR ''#'') url')))
      else Inl TypeError)"

text \<open>
  The choice of \<open>selector\<close> and \<open>currentMain\<close> (the \<open>if\<close> on \<open>request.targetSelector\<close>
  in \<open>handlePjaxResponse\<close>). With a target selector the current region is looked up
  with the selector built from it. Without one the current \<open>main\<close> element is looked
  up first and \<open>getAttribute\<close> is called on it, which raises when there is none; an
  identifier that is \<open>null\<close> or empty is falsy and leaves the selector \<open>main\<close>.
\<close>

definition responseSelector ::
  "selectorEngine \<Rightarrow> NavigaitonRequest \<Rightarrow> element list \<Rightarrow> error + (string \<times> element option)" where
  "responseSelector engine request doc =
     (case targetSelector request of
        Some t \<Rightarrow>
          (case querySelector engine (pjaxIdSelector t) doc of
             Inl e \<Rightarrow> Inl e
           | Inr currentMain \<Rightarrow> Inr (pjaxIdSelector t, currentMain))
      | None \<Rightarrow>
          (case querySelector engine ''main'' doc of
             Inl e \<Rightarrow> Inl e
           | Inr None \<Rightarrow> Inl TypeError
           | Inr (Some currentMain) \<Rightarrow>
               (case getAttribute ''pjax-id'' currentMain of
                  None \<Rightarrow> Inr (''main'', Some currentMain)
                | Some mainId \<Rightarrow>
                    if mainId \<noteq> [] then Inr (pjaxIdSelector mainId, Some currentMain)
                    else Inr (''main'', Some currentMain))))"

text \<open>
  The request returned by \<open>getNavigaitonRequest\<close> is the object in the queue, so the
  assignments to \<open>request.body\<close> and \<open>request.title\<close> change the first entry with that
  identifier.
\<close>

fun updateNavigationRequest ::
  "string \<Rightarrow> (NavigaitonRequest \<Rightarrow> NavigaitonRequest) \<Rightarrow> NavigaitonRequest list \<Rightarrow>
   NavigaitonRequest list" where
  "updateNavigationRequest requestId f [] = []"
| "updateNavigationRequest requestId f (r # rs) =
     (if requestUid r = requestId then f r # rs
      else r # updateNavigationRequest requestId f rs)"

definition undefinedOr :: "string option \<Rightarrow> string" where
  "undefinedOr v = (case v of None \<Rightarrow> ''undefined'' | Some x \<Rightarrow> x)"

definition fetchFailed :: "string \<Rightarrow> string option \<Rightarrow> effect" where
  "fetchFailed url' error' =
     ConsoleError (''Failed to fetch page: '' @ url' @ ''. Server responded with: '' @ undefinedOr error')"

text \<open>
  The parser of the browser, which fills the temporary document from the body, is the
  parameter \<open>parseHTML\<close>. Each \<open>Inl TypeError\<close> is a read of a property of \<open>null\<close>:
  \<open>request.targetSelector\<close> and \<open>request.requestUid\<close> when the queue has no request
  with the identifier, \<open>currentMain.getAttribute\<close>, and the element 0 of a failed match.
  An exception of either \<open>querySelector\<close> ends the handler as well.
\<close>

definition handlePjaxResponse ::
  "selectorEngine \<Rightarrow> (string \<Rightarrow> htmlDocument) \<Rightarrow> string \<Rightarrow> string \<Rightarrow> string \<Rightarrow>
   string option \<Rightarrow> string option \<Rightarrow> Pjax \<Rightarrow> error + Pjax" where
  "handlePjaxResponse engine parseHTML requestId status url' body' error' s =
     (let request = getNavigaitonRequest requestId (navigationRequestQueue s) in
      if activeRequestUid s = Some requestId then
        if status = ''external'' then Inr (emit [LocationHref url'] s)
        else if status = ''hash-change'' then
          (case hashFragment url' of
             Inl e \<Rightarrow> Inl e
           | Inr h \<Rightarrow> Inr (emit [LocationHash h] s))
        else if status = ''ok'' then
          (let tempDocument = parseHTML (undefinedOr body') in
           case request of
             None \<Rightarrow> Inl TypeError
           | Some r \<Rightarrow>
               (case responseSelector engine r (document s) of
                  Inl e \<Rightarrow> Inl e
                | Inr (selector, currentMain) \<Rightarrow>
                    (case querySelector engine selector (docElements tempDocument) of
                       Inl e \<Rightarrow> Inl e
                     | Inr incoming \<Rightarrow>
                         (case (incoming, currentMain) of
                            (Some incomingMain, Some _) \<Rightarrow>
                              Inr ((emit [RuntimeParse (innerHTML incomingMain) requestId] s)
                                   \<lparr>navigationRequestQueue :=
                                      updateNavigationRequest requestId
                                        (\<lambda>q. q\<lparr>body := Some (innerHTML incomingMain),
                                                title := Some (docTitle tempDocument)\<rparr>)
                                        (navigationRequestQueue s)\<rparr>)
                          | _ \<Rightarrow>
                              Inr (emit [ConsoleError ''Failed to find matching elements.'',
                                         LocationHref url'] s)))))
        else Inr (emit [fetchFailed url' error', LocationHref url'] s)
      else
        (case request of
           None \<Rightarrow> Inl TypeError
         | Some r \<Rightarrow>
             (let s1 = s\<lparr>navigationRequestQueue :=
                          removeNavigationRequest (requestUid r) (navigationRequestQueue s)\<rparr>
              in if status \<noteq> ''ok'' then Inr (emit [fetchFailed url' error'] s1) else Inr s1)))"

subsection \<open>swapPjaxContent\<close>

text \<open>
  The selector that \<open>swapPjaxContent\<close> hands to the transition manager. The call of
  the transition manager is the effect \<open>TransitionManager\<close>; what runs when its promise
  resolves (the title, the finalize message, the two mount messages) is not part of the
  handler and is left out.
\<close>

definition swapSelector :: "NavigaitonRequest \<Rightarrow> string" where
  "swapSelector request =
     (case targetSelector request of Some t \<Rightarrow> pjaxIdSelector t | None \<Rightarrow> ''main'')"

definition swapPjaxContent :: "string \<Rightarrow> Pjax \<Rightarrow> error + Pjax" where
  "swapPjaxContent requestUid' s =
     (case getNavigaitonRequest requestUid' (navigationRequestQueue s) of
        None \<Rightarrow> Inl TypeError
      | Some request \<Rightarrow>
          (let s1 = (if Some (requestUid request) = activeRequestUid s
                     then emit [EndPageTransition,
                                TransitionManager (swapSelector request) (body request)
                                  (transition request) (transitionData request)] s
                     else s)
           in Inr (s1\<lparr>navigationRequestQueue :=
                        removeNavigationRequest (requestUid request) (navigationRequestQueue s1)\<rparr>)))"

subsection \<open>prefetchLinks\<close>

text \<open>
  The three selectors end in
  \<open>a[href]:not([target]):not([pjax-prefetched]):not(prevent-pjax):not(no-transition)\<close>;
  the last two negations are type selectors. The first two selectors require an ancestor
  \<open>header\<close>, respectively \<open>nav\<close>.
\<close>

definition prefetchable :: "element \<Rightarrow> bool" where
  "prefetchable e \<longleftrightarrow>
     tagName e = ''a'' \<and> hasAttribute ''href'' e \<and> \<not> hasAttribute ''target'' e \<and>
     \<not> hasAttribute ''pjax-prefetched'' e \<and> tagName e \<noteq> ''prevent-pjax'' \<and>
     tagName e \<noteq> ''no-transition''"

definition headerLink :: "element \<Rightarrow> bool" where
  "headerLink e \<longleftrightarrow> ''header'' \<in> set (ancestors e) \<and> prefetchable e"

definition navLink :: "element \<Rightarrow> bool" where
  "navLink e \<longleftrightarrow> ''nav'' \<in> set (ancestors e) \<and> prefetchable e"

definition markPrefetched :: "(element \<Rightarrow> bool) \<Rightarrow> element list \<Rightarrow> element list" where
  "markPrefetched sel doc =
     map (\<lambda>link. if sel link then setAttribute ''pjax-prefetched'' ''true'' link else link) doc"

definition prefetchLinks :: "Pjax \<Rightarrow> Pjax" where
  "prefetchLinks s =
     (if connection s = G2 \<or> connection s = Slow2G \<or> \<not> serviceWorkerInNavigator s \<or> dataSaver s
      then s
      else
        (let d0 = document s;
             headerUrls = map href (filter headerLink d0);
             d1 = markPrefetched headerLink d0;
             navUrls = map href (filter navLink d1);
             d2 = markPrefetched navLink d1;
             s1 = emit [WorkerPostMessage (PrefetchRequest (headerUrls @ navUrls))] (s\<lparr>document := d2\<rparr>)
         in if connection s = G3 then s1
            else s1\<lparr>document := markPrefetched prefetchable d2,
                    io := io s1 @ filter (\<lambda>i. prefetchable (d2 ! i)) [0 ..< length d2]\<rparr>))"

subsection \<open>handleServiceWorkerMessage\<close>

text \<open>
  \<open>parseInt\<close> without a radix: leading white space (here: the space and the ASCII
  controls 9 to 13) is skipped, then an optional sign, then \<open>0x\<close> or \<open>0X\<close> selects base
  16; the value is that of the longest prefix of digits, and \<open>NaN\<close> (here \<open>None\<close>) when
  that prefix is empty. \<open>getItem\<close> gives \<open>null\<close> for a missing key, which \<open>parseInt\<close>
  reads as the string \<open>null\<close>. Numbers are integers here, not doubles.
\<close>

definition whiteSpace :: "char \<Rightarrow> bool" where
  "whiteSpace c \<longleftrightarrow> c = CHR '' '' \<or> (9 \<le> (of_char c :: nat) \<and> (of_char c :: nat) \<le> 13)"

definition digitValue :: "nat \<Rightarrow> char \<Rightarrow> nat option" where
  "digitValue radix c =
     (let n = (of_char c :: nat);
          v = (if 48 \<le> n \<and> n \<le> 57 then Some (n - 48)
               else if 97 \<le> n \<and> n \<le> 122 then Some (n - 87)
               else if 65 \<le> n \<and> n \<le> 90 then Some (n - 55)
               else None)
      in case v of None \<Rightarrow> None | Some d \<Rightarrow> if d < radix then Some d else None)"

fun parseDigits :: "nat \<Rightarrow> string \<Rightarrow> nat \<Rightarrow> nat" where
  "parseDigits radix [] acc = acc"
| "parseDigits radix (c # cs) acc =
     (case digitValue radix c of
        None \<Rightarrow> acc
      | Some d \<Rightarrow> parseDigits radix cs (acc * radix + d))"

definition parseInt :: "string option \<Rightarrow> int option" where
  "parseInt v =
     (let s0 = dropWhile whiteSpace (case v of None \<Rightarrow> ''null'' | Some x \<Rightarrow> x);
          negative = (take 1 s0 = ''-'');
          s1 = (if take 1 s0 = ''-'' \<or> take 1 s0 = ''+'' then drop 1 s0 else s0);
          hex = (take 2 s1 = ''0x'' \<or> take 2 s1 = ''0X'');
          radix = (if hex then 16 else 10);
          s2 = (if hex then drop 2 s1 else s1)
      in case s2 of
           [] \<Rightarrow> None
         | c # _ \<Rightarrow>
             (case digitValue radix c of
                None \<Rightarrow> None
              | Some _ \<Rightarrow>
                  Some (if negative then - int (parseDigits radix s2 0)
                        else int (parseDigits radix s2 0))))"

text \<open>The template literal of an integer: its decimal digits.\<close>

fun showNat :: "nat \<Rightarrow> string" where
  "showNat n =
     (if n < 10 then [''0123456789'' ! n] else showNat (n div 10) @ [''0123456789'' ! (n mod 10)])"

definition showInt :: "int \<Rightarrow> string" where
  "showInt i = (if i < 0 then ''-'' @ showNat (nat (- i)) else showNat (nat i))"

text \<open>
  The messages of the service worker. The numbers \<open>max\<close> and \<open>contentCacheExpires\<close>
  (days) are integers here, and the two readings of \<open>Date.now()\<close> are inputs.
\<close>

datatype serviceWorkerEvent =
    PageRefresh
  | Cachebust int int
  | OtherMessage string

definition handleServiceWorkerMessage :: "int \<Rightarrow> int \<Rightarrow> serviceWorkerEvent \<Rightarrow> Pjax \<Rightarrow> Pjax" where
  "handleServiceWorkerMessage now now' e s =
     (case e of
        PageRefresh \<Rightarrow>
          (let promptCount = map_option (\<lambda>n. n + 1) (parseInt (sessionStorage s ''prompts''));
               s1 = s\<lparr>sessionStorage := (sessionStorage s)
                        (''prompts'' \<mapsto> (case promptCount of None \<Rightarrow> ''NaN'' | Some n \<Rightarrow> showInt n))\<rparr>
           in emit [Notify ''A new version of this page is available.''] s1)
      | Cachebust max' contentCacheExpires \<Rightarrow>
          (let s1 = s\<lparr>sessionStorage := (sessionStorage s)(''maxPrompts'' \<mapsto> showInt max')\<rparr>;
               currentPromptCount = sessionStorage s1 ''prompts'';
               s2 = (case parseInt currentPromptCount of
                       None \<Rightarrow> s1
                     | Some n \<Rightarrow>
                         if n \<ge> max'
                         then emit [ServiceWorkerPostMessage ClearContentCache]
                                (s1\<lparr>sessionStorage := (sessionStorage s1)(''prompts'' \<mapsto> ''0'')\<rparr>)
                         else s1);
               contentCacheTimestap = parseInt (localStorage s2 ''contentCache'');
               neededDifference = contentCacheExpires * 24 * 60 * 60 * 1000
           in case contentCacheTimestap of
                None \<Rightarrow> s2
              | Some t \<Rightarrow>
                  if now - t \<ge> neededDifference
                  then emit [ServiceWorkerPostMessage ClearContentCache]
                         (s2\<lparr>localStorage := (localStorage s2)(''contentCache'' \<mapsto> showInt now')\<rparr>)
                  else s2)
      | OtherMessage type' \<Rightarrow>
          if debug s
          then emit [ConsoleError (''Undefined Service Worker response message type: '' @ type')] s
          else s)"

subsection \<open>Sequences of messages\<close>

text \<open>
  The messages that drive a navigation: a \<open>load\<close> (with the identifier that \<open>uuid()\<close>
  returns for it and \<open>location.href\<close>), a reply of the worker, and \<open>css-ready\<close>. Each is
  handled to its end before the next; a handler that raises ends there, and it has
  changed nothing by then.
\<close>

datatype event =
    Load string string string "string option" "string option" "historyMode option" "string option"
  | Reply string string string "string option" "string option"
  | CssReady string

fun step :: "selectorEngine \<Rightarrow> (string \<Rightarrow> htmlDocument) \<Rightarrow> Pjax \<Rightarrow> event \<Rightarrow> Pjax" where
  "step engine parseHTML s (Load uuid locationHref url' transition' transitionData' history' targetEl) =
     navigate uuid locationHref url' transition' transitionData' history' targetEl s"
| "step engine parseHTML s (Reply requestId status url' body' error') =
     (case handlePjaxResponse engine parseHTML requestId status url' body' error' s of
        Inl _ \<Rightarrow> s | Inr s' \<Rightarrow> s')"
| "step engine parseHTML s (CssReady requestUid') =
     (case swapPjaxContent requestUid' s of Inl _ \<Rightarrow> s | Inr s' \<Rightarrow> s')"

definition run ::
  "selectorEngine \<Rightarrow> (string \<Rightarrow> htmlDocument) \<Rightarrow> event list \<Rightarrow> Pjax \<Rightarrow> Pjax" where
  "run engine parseHTML evs s = foldl (step engine parseHTML) s evs"

text \<open>The identifier of the most recent \<open>load\<close> of a sequence, if it has one.\<close>

fun lastLoad :: "event list \<Rightarrow> string option" where
  "lastLoad [] = None"
| "lastLoad (Load uuid _ _ _ _ _ _ # evs) =
     (case lastLoad evs of None \<Rightarrow> Some uuid | Some u \<Rightarrow> Some u)"
| "lastLoad (_ # evs) = lastLoad evs"

text \<open>
  What the two peers promise: identifiers of loads are fresh, the worker replies to a
  request that was issued and at most once, and \<open>css-ready\<close> follows the reply of its
  request. The two lists are the identifiers issued and answered so far.
\<close>

fun wellFormed :: "string list \<Rightarrow> string list \<Rightarrow> event list \<Rightarrow> bool" where
  "wellFormed issued answered [] = True"
| "wellFormed issued answered (Load uuid _ _ _ _ _ _ # evs) =
     (uuid \<notin> set issued \<and> wellFormed (uuid # issued) answered evs)"
| "wellFormed issued answered (Reply requestId _ _ _ _ # evs) =
     (requestId \<in> set issued \<and> requestId \<notin> set answered \<and>
      wellFormed issued (requestId # answered) evs)"
| "wellFormed issued answered (CssReady requestUid' # evs) =
     (requestUid' \<in> set answered \<and> wellFormed issued answered evs)"

definition isLog :: "effect \<Rightarrow> bool" where
  "isLog e = (case e of ConsoleError _ \<Rightarrow> True | _ \<Rightarrow> False)"

subsection \<open>Example inputs\<close>

definition exHeaderLink :: element where
  "exHeaderLink = \<lparr>tagName = ''a'', attributes = [(''href'', ''/about'')], classList = [],
     ancestors = [''header''], innerHTML = ''About'', clickListeners = 0\<rparr>"

definition exExternalLink :: element where
  "exExternalLink = \<lparr>tagName = ''a'', attributes = [(''href'', ''/doc.pdf''), (''target'', ''_blank'')],
     classList = [], ancestors = [''main''], innerHTML = ''PDF'', clickListeners = 0\<rparr>"

definition exBodyLink :: element where
  "exBodyLink = \<lparr>tagName = ''a'', attributes = [(''href'', ''/news'')], classList = [],
     ancestors = [''main''], innerHTML = ''News'', clickListeners = 0\<rparr>"

definition exMain :: element where
  "exMain = \<lparr>tagName = ''main'', attributes = [(''pjax-id'', ''content'')], classList = [],
     ancestors = [], innerHTML = ''OLD'', clickListeners = 0\<rparr>"

definition exDocument :: "element list" where
  "exDocument = [exHeaderLink, exMain, exExternalLink, exBodyLink]"

definition exIncomingMain :: element where
  "exIncomingMain = \<lparr>tagName = ''main'', attributes = [(''pjax-id'', ''content'')], classList = [],
     ancestors = [], innerHTML = ''NEW'', clickListeners = 0\<rparr>"

definition exIncoming :: htmlDocument where
  "exIncoming = \<lparr>docTitle = ''About'', docElements = [exIncomingMain]\<rparr>"

definition exOtherIncoming :: htmlDocument where
  "exOtherIncoming = \<lparr>docTitle = ''Legacy'', docElements =
     [\<lparr>tagName = ''main'', attributes = [(''pjax-id'', ''legacy'')], classList = [],
       ancestors = [], innerHTML = ''NEW'', clickListeners = 0\<rparr>]\<rparr>"

definition exBareIncoming :: htmlDocument where
  "exBareIncoming = \<lparr>docTitle = ''Bare'', docElements =
     [\<lparr>tagName = ''div'', attributes = [], classList = [], ancestors = [],
       innerHTML = ''NEW'', clickListeners = 0\<rparr>]\<rparr>"

definition exParse :: "string \<Rightarrow> htmlDocument" where
  "exParse body' =
     (if body' = ''legacy'' then exOtherIncoming
      else if body' = ''bare'' then exBareIncoming
      else exIncoming)"

text \<open>A selector engine that rejects every selector text that is left to it.\<close>

definition exEngine :: selectorEngine where
  "exEngine text doc = Inl DOMException"

definition exRequest :: NavigaitonRequest where
  "exRequest = \<lparr>body = None, title = None, url = ''/about'', history = Push, requestUid = ''a'',
     transition = Some ''fade'', transitionData = None, targetSelector = None\<rparr>"

definition exEntry :: "string \<Rightarrow> historyEntry" where
  "exEntry u = \<lparr>stateUrl = u, entryTitle = ''t'', entryUrl = u\<rparr>"

text \<open>
  The state after the constructor on a page with the example document: three history
  entries of which the first is current (the user went back twice), two earlier reload
  prompts.
\<close>

definition exPjax :: Pjax where
  "exPjax = \<lparr>activeRequestUid = None, navigationRequestQueue = [], io = [],
     document = exDocument,
     windowHistory = \<lparr>entries = [exEntry ''/'', exEntry ''/a'', exEntry ''/b''], current = 0\<rparr>,
     sessionStorage = [''prompts'' \<mapsto> ''2''],
     localStorage = [''contentCache'' \<mapsto> ''1000''],
     connection = G4, dataSaver = False, serviceWorkerInNavigator = True, debug = False,
     effects = []\<rparr>"

text \<open>The example state after a click on the header link.\<close>

definition exLoaded :: Pjax where
  "exLoaded = navigate ''a'' ''/'' ''/about'' (Some ''fade'') None None None exPjax"

text \<open>
  A page without a \<open>main\<close> element, and the states after a click on its header link:
  without a target, and with the attribute \<open>pjax-view-id="content"\<close> on the link.
\<close>

definition exNoMainDocument :: "element list" where
  "exNoMainDocument =
     [exHeaderLink,
      \<lparr>tagName = ''div'', attributes = [(''id'', ''page'')], classList = [], ancestors = [],
        innerHTML = ''OLD'', clickListeners = 0\<rparr>]"

definition exNoMain :: Pjax where
  "exNoMain = navigate ''a'' ''/'' ''/about'' (Some ''fade'') None None None
     (exPjax\<lparr>document := exNoMainDocument\<rparr>)"

definition exTargeted :: Pjax where
  "exTargeted = navigate ''a'' ''/'' ''/about'' (Some ''fade'') None None (Some ''content'')
     (exPjax\<lparr>document := exNoMainDocument\<rparr>)"

text \<open>The example state after a second click, on the link in the body, before any reply.\<close>

definition exRequestB :: NavigaitonRequest where
  "exRequestB = \<lparr>body = None, title = None, url = ''/news'', history = Push, requestUid = ''b'',
     transition = None, transitionData = None, targetSelector = None\<rparr>"

definition exTwo :: Pjax where
  "exTwo = navigate ''b'' ''/about'' ''/news'' None None None None exLoaded"

section \<open>Properties\<close>

subsection \<open>Queue lemmas\<close>

lemma getNavigaitonRequest_None_iff:
  "getNavigaitonRequest requestId q = None \<longleftrightarrow> requestId \<notin> requestUid ` set q"
  by (induction q) auto

lemma getNavigaitonRequest_Some_uid:
  "getNavigaitonRequest requestId q = Some r \<Longrightarrow> requestUid r = requestId \<and> r \<in> set q"
  by (induction q) (auto split: if_splits)

lemma removeNavigationRequest_absent:
  "requestId \<notin> requestUid ` set q \<Longrightarrow> removeNavigationRequest requestId q = q"
  by (induction q) auto

lemma removeNavigationRequest_split:
  "getNavigaitonRequest requestId q = Some r \<Longrightarrow>
   \<exists>ys zs. q = ys @ r # zs \<and> requestId \<notin> requestUid ` set ys \<and>
           removeNavigationRequest requestId q = ys @ zs"
proof (induction q)
  case Nil
  then show ?case by simp
next
  case (Cons a q)
  show ?case
  proof (cases "requestUid a = requestId")
    case True
    with Cons.prems have "a # q = [] @ r # q \<and> removeNavigationRequest requestId (a # q) = [] @ q"
      by simp
    then show ?thesis by (metis empty_iff image_empty list.set(1))
  next
    case False
    with Cons obtain ys zs where
      "q = ys @ r # zs" "requestId \<notin> requestUid ` set ys"
      "removeNavigationRequest requestId q = ys @ zs"
      by auto
    with False have "a # q = (a # ys) @ r # zs \<and> requestId \<notin> requestUid ` set (a # ys) \<and>
        removeNavigationRequest requestId (a # q) = (a # ys) @ zs"
      by auto
    then show ?thesis by blast
  qed
qed

text \<open>
  C10. \<open>getNavigaitonRequest\<close> returns \<open>null\<close> exactly when no entry has the identifier,
  and then \<open>removeNavigationRequest\<close> leaves the queue as it is; otherwise it returns the
  first entry with the identifier, and \<open>removeNavigationRequest\<close> deletes that one entry
  and keeps all the others in their order.
\<close>

theorem queue_first_match:
  "(case getNavigaitonRequest requestId q of
      None \<Rightarrow> requestId \<notin> requestUid ` set q \<and> removeNavigationRequest requestId q = q
    | Some r \<Rightarrow>
        requestUid r = requestId \<and>
        (\<exists>ys zs. q = ys @ r # zs \<and> requestId \<notin> requestUid ` set ys \<and>
                 removeNavigationRequest requestId q = ys @ zs))"
proof (cases "getNavigaitonRequest requestId q")
  case None
  have "requestId \<notin> requestUid ` set q"
    using None by (simp add: getNavigaitonRequest_None_iff)
  then show ?thesis
    using None by (simp add: removeNavigationRequest_absent)
next
  case (Some r)
  then show ?thesis
    using getNavigaitonRequest_Some_uid [OF Some] removeNavigationRequest_split [OF Some]
    by simp
qed

subsection \<open>Link collection\<close>

lemma tracked_not_unregistered: "\<not> unregisteredLink (trackLink e)"
  by (simp add: unregisteredLink_def trackLink_def hasAttribute_def getAttribute_def
      setAttribute_def update_conv')

lemma collectLinks_twice: "collectLinks (collectLinks s) = collectLinks s"
  by (simp add: collectLinks_def tracked_not_unregistered cong: map_cong)

lemma collectLinks_funpow: "0 < N \<Longrightarrow> (collectLinks ^^ N) s = collectLinks s"
proof (induction N)
  case 0
  then show ?case by simp
next
  case (Suc N)
  show ?case
  proof (cases "N = 0")
    case True
    then show ?thesis by simp
  next
    case False
    with Suc.IH have "(collectLinks ^^ N) s = collectLinks s" by simp
    then show ?thesis by (simp add: collectLinks_twice)
  qed
qed

text \<open>
  C5. Calling \<open>collectLinks\<close> N times (N at least 1) on a document that nothing else
  changes is the same as calling it once, and every element has then received one click
  listener if it matched the selector of eligible anchors before the first call, and
  none otherwise.
\<close>

theorem collectLinks_idempotent:
  "0 < N \<Longrightarrow>
   (collectLinks ^^ N) s = collectLinks s \<and>
   length (document ((collectLinks ^^ N) s)) = length (document s) \<and>
   (\<forall>i < length (document s).
      clickListeners (document ((collectLinks ^^ N) s) ! i) =
        clickListeners (document s ! i) + (if unregisteredLink (document s ! i) then 1 else 0))"
  by (simp add: collectLinks_funpow) (simp add: collectLinks_def trackLink_def setAttribute_def)

theorem collectLinks_idempotent_witness:
  "(0::nat) < 3 \<and> (collectLinks ^^ 3) exPjax = collectLinks exPjax \<and>
   map clickListeners (document ((collectLinks ^^ 3) exPjax)) = [1, 0, 0, 1]"
proof -
  have d: "map clickListeners (document (collectLinks exPjax)) = [1, 0, 0, 1]"
    by (simp add: collectLinks_def exPjax_def exDocument_def exHeaderLink_def exMain_def
        exExternalLink_def exBodyLink_def unregisteredLink_def trackLink_def hasAttribute_def
        getAttribute_def setAttribute_def)
  have "(0::nat) < 3" by simp
  from collectLinks_idempotent [OF this, of exPjax] d show ?thesis by simp
qed

subsection \<open>Prefetching\<close>

text \<open>
  C9. On a 2g or slow-2g connection, without a service worker in the navigator, or with
  the data saver on, \<open>prefetchLinks\<close> changes nothing and sends nothing. On any connection
  other than 4g it puts no link under observation: on 3g it only posts the prefetch
  message; on 4g the links still eligible after the header and navigation links were
  marked are observed.
\<close>

theorem prefetchLinks_gates:
  "(connection s = G2 \<or> connection s = Slow2G \<or> \<not> serviceWorkerInNavigator s \<or> dataSaver s
      \<longrightarrow> prefetchLinks s = s) \<and>
   (connection s \<noteq> G4 \<longrightarrow> io (prefetchLinks s) = io s) \<and>
   (connection s = G3 \<and> serviceWorkerInNavigator s \<and> \<not> dataSaver s \<longrightarrow>
      (\<exists>urls. effects (prefetchLinks s) = effects s @ [WorkerPostMessage (PrefetchRequest urls)])) \<and>
   (connection s = G4 \<and> serviceWorkerInNavigator s \<and> \<not> dataSaver s \<longrightarrow>
      io (prefetchLinks s) =
        io s @ filter (\<lambda>i. prefetchable (markPrefetched navLink (markPrefetched headerLink (document s)) ! i))
                 [0 ..< length (document s)])"
proof -
  have "connection s = G4 \<or> connection s = G3 \<or> connection s = G2 \<or> connection s = Slow2G"
    by (cases "connection s") simp_all
  then show ?thesis
    by (auto simp add: prefetchLinks_def Let_def emit_def markPrefetched_def)
qed

theorem prefetchLinks_gates_witness:
  "prefetchLinks (exPjax\<lparr>dataSaver := True\<rparr>) = exPjax\<lparr>dataSaver := True\<rparr> \<and>
   io (prefetchLinks (exPjax\<lparr>connection := G3\<rparr>)) = [] \<and>
   effects (prefetchLinks (exPjax\<lparr>connection := G3\<rparr>)) = [WorkerPostMessage (PrefetchRequest [''/about''])] \<and>
   io (prefetchLinks exPjax) = [3]"
proof -
  have 1: "dataSaver (exPjax\<lparr>dataSaver := True\<rparr>)" by simp
  have 2: "connection (exPjax\<lparr>connection := G3\<rparr>) \<noteq> G4" by simp
  have 3: "connection exPjax = G4 \<and> serviceWorkerInNavigator exPjax \<and> \<not> dataSaver exPjax"
    by (simp add: exPjax_def)
  have e: "effects (prefetchLinks (exPjax\<lparr>connection := G3\<rparr>)) = [WorkerPostMessage (PrefetchRequest [''/about''])]"
    by (simp add: prefetchLinks_def exPjax_def exDocument_def exHeaderLink_def exMain_def
        exExternalLink_def exBodyLink_def prefetchable_def headerLink_def navLink_def hasAttribute_def
        getAttribute_def setAttribute_def markPrefetched_def emit_def href_def Let_def)
  have i: "filter (\<lambda>i. prefetchable (markPrefetched navLink (markPrefetched headerLink (document exPjax)) ! i))
                 [0 ..< length (document exPjax)] = [3]"
    by (simp add: exPjax_def exDocument_def exHeaderLink_def exMain_def upt_rec
        exExternalLink_def exBodyLink_def prefetchable_def headerLink_def navLink_def hasAttribute_def
        getAttribute_def setAttribute_def markPrefetched_def)
  from prefetchLinks_gates [of "exPjax\<lparr>dataSaver := True\<rparr>"] 1
    prefetchLinks_gates [of "exPjax\<lparr>connection := G3\<rparr>"] 2
    prefetchLinks_gates [of exPjax] 3 e i
  show ?thesis by (simp add: exPjax_def)
qed

subsection \<open>The cachebust message\<close>

text \<open>
  C8. On a cachebust message, when the prompt counter read from the session storage is at
  least the maximum of the message, the counter is set to 0 and the clear-content-cache
  message is posted; when it is below, the counter stays and nothing is posted for it.
  Whatever else is posted comes from the expiry of the content cache, which is checked
  afterwards in both cases.
\<close>

theorem cachebust_prompt_counter:
  "parseInt (sessionStorage s ''prompts'') = Some n \<Longrightarrow>
   (let s' = handleServiceWorkerMessage now now' (Cachebust max' contentCacheExpires) s;
        expiry = (case parseInt (localStorage s ''contentCache'') of
                    None \<Rightarrow> []
                  | Some t \<Rightarrow>
                      if now - t \<ge> contentCacheExpires * 24 * 60 * 60 * 1000
                      then [ServiceWorkerPostMessage ClearContentCache] else [])
    in (n \<ge> max' \<longrightarrow>
          sessionStorage s' ''prompts'' = Some ''0'' \<and>
          effects s' = effects s @ ServiceWorkerPostMessage ClearContentCache # expiry) \<and>
       (n < max' \<longrightarrow>
          sessionStorage s' ''prompts'' = sessionStorage s ''prompts'' \<and>
          effects s' = effects s @ expiry))"
  by (simp add: handleServiceWorkerMessage_def Let_def emit_def split: option.splits)

theorem cachebust_prompt_counter_witness:
  "parseInt (sessionStorage exPjax ''prompts'') = Some 2 \<and>
   sessionStorage (handleServiceWorkerMessage 5000 5001 (Cachebust 2 1) exPjax) ''prompts'' = Some ''0'' \<and>
   effects (handleServiceWorkerMessage 5000 5001 (Cachebust 2 1) exPjax) =
     [ServiceWorkerPostMessage ClearContentCache] \<and>
   sessionStorage (handleServiceWorkerMessage 5000 5001 (Cachebust 3 1) exPjax) ''prompts'' = Some ''2'' \<and>
   effects (handleServiceWorkerMessage 5000 5001 (Cachebust 3 1) exPjax) = []"
proof -
  have p: "parseInt (sessionStorage exPjax ''prompts'') = Some 2"
    by (simp add: exPjax_def parseInt_def whiteSpace_def digitValue_def)
  have c: "parseInt (localStorage exPjax ''contentCache'') = Some 1000"
    by (simp add: exPjax_def parseInt_def whiteSpace_def digitValue_def)
  have e: "effects exPjax = []" "sessionStorage exPjax ''prompts'' = Some ''2''"
    by (simp_all add: exPjax_def)
  from cachebust_prompt_counter [OF p, of 5000 5001 2 1] cachebust_prompt_counter [OF p, of 5000 5001 3 1] p c e
  show ?thesis by (simp add: Let_def)
qed

subsection \<open>History\<close>

text \<open>
  C7, amended. With a current entry in the history, \<open>updateHistory\<close> in mode replace
  keeps the length and the position and overwrites the current entry; in mode push it
  makes the new entry the last one, at the position after the current one, so that the
  length becomes the old position plus 2: one more than before exactly when the current
  entry was the last. In both modes the state of the entry that is current afterwards
  holds the URL.
\<close>

theorem updateHistory_length:
  "current (windowHistory s) < historyLength (windowHistory s) \<Longrightarrow>
   (let h = windowHistory s;
        hr = windowHistory (updateHistory title' url' Replace s);
        hp = windowHistory (updateHistory title' url' Push s)
    in historyLength hr = historyLength h \<and> current hr = current h \<and>
       stateUrl (entries hr ! current hr) = url' \<and>
       historyLength hp = current h + 2 \<and> current hp = current h + 1 \<and>
       stateUrl (entries hp ! current hp) = url' \<and>
       (historyLength hp = historyLength h + 1 \<longleftrightarrow> current h + 1 = historyLength h))"
  by (auto simp add: updateHistory_def pushState_def replaceState_def historyLength_def Let_def
      nth_append min_def)

theorem updateHistory_length_witness:
  "current (windowHistory exPjax) < historyLength (windowHistory exPjax) \<and>
   historyLength (windowHistory (updateHistory ''About'' ''/about'' Replace exPjax)) = 3 \<and>
   historyLength (windowHistory (updateHistory ''About'' ''/about'' Push exPjax)) = 2"
proof -
  have h: "current (windowHistory exPjax) < historyLength (windowHistory exPjax)"
    by (simp add: exPjax_def historyLength_def)
  have "historyLength (windowHistory exPjax) = 3" "current (windowHistory exPjax) = 0"
    by (simp_all add: exPjax_def historyLength_def)
  with updateHistory_length [OF h, of "''About''" "''/about''"] show ?thesis
    by (simp add: Let_def)
qed

text \<open>
  After two steps back the history has three entries and the first is current; a push
  then leaves two entries, not four.
\<close>

theorem push_with_forward_entries_counterexample:
  "historyLength (windowHistory (updateHistory ''About'' ''/about'' Push exPjax)) \<noteq>
     historyLength (windowHistory exPjax) + 1"
  by (simp add: updateHistory_def pushState_def historyLength_def exPjax_def)

subsection \<open>The region selector\<close>

lemma pjaxIdSelector_not_main: "pjaxIdSelector x \<noteq> ''main''"
  by (simp add: pjaxIdSelector_def)

lemma regionIdOf_plain: "plainValue x \<Longrightarrow> regionIdOf (pjaxIdSelector x) = Some x"
proof -
  assume p: "plainValue x"
  have l: "length (pjaxIdSelector x) = length x + 12"
    by (simp add: pjaxIdSelector_def)
  have "take (length (pjaxIdSelector x) - 12) (drop 10 (pjaxIdSelector x)) = x"
    unfolding l by (simp add: pjaxIdSelector_def)
  with p l show ?thesis
    by (simp add: regionIdOf_def Let_def)
qed

lemma querySelector_main:
  "querySelector engine ''main'' doc = Inr (List.find (\<lambda>e. tagName e = ''main'') doc)"
  by (simp add: querySelector_def)

lemma querySelector_plain:
  "plainValue x \<Longrightarrow>
   querySelector engine (pjaxIdSelector x) doc =
     Inr (List.find (\<lambda>e. getAttribute ''pjax-id'' e = Some x) doc)"
  by (simp add: querySelector_def regionIdOf_plain pjaxIdSelector_not_main)

lemma plain_content: "plainValue ''content''"
  by (simp add: plainValue_def)

text \<open>
  C4, amended. For a request without target selector on a document whose \<open>main\<close> element
  has a non-empty \<open>pjax-id\<close> x, the reply is reconciled with the selector
  \<open>[pjax-id="x"]\<close> and with that \<open>main\<close> element as the current region, while the swap
  hands the selector \<open>main\<close> to the transition manager; in the current document that
  selector finds the same \<open>main\<close> element.
\<close>

theorem swap_selector_same_element:
  "targetSelector r = None \<Longrightarrow> querySelector engine ''main'' doc = Inr (Some m) \<Longrightarrow>
   getAttribute ''pjax-id'' m = Some x \<Longrightarrow> x \<noteq> [] \<Longrightarrow>
   responseSelector engine r doc = Inr (pjaxIdSelector x, Some m) \<and> swapSelector r = ''main'' \<and>
   querySelector engine (swapSelector r) doc = Inr (Some m)"
  by (simp add: responseSelector_def swapSelector_def)

theorem swap_selector_same_element_witness:
  "targetSelector exRequest = None \<and> querySelector exEngine ''main'' exDocument = Inr (Some exMain) \<and>
   getAttribute ''pjax-id'' exMain = Some ''content'' \<and>
   responseSelector exEngine exRequest exDocument = Inr (pjaxIdSelector ''content'', Some exMain) \<and>
   querySelector exEngine (swapSelector exRequest) exDocument = Inr (Some exMain)"
proof -
  have 1: "targetSelector exRequest = None" by (simp add: exRequest_def)
  have 2: "querySelector exEngine ''main'' exDocument = Inr (Some exMain)"
    by (simp add: querySelector_main exDocument_def exHeaderLink_def exMain_def)
  have 3: "getAttribute ''pjax-id'' exMain = Some ''content''"
    by (simp add: getAttribute_def exMain_def)
  have 4: "''content'' \<noteq> []" by simp
  from swap_selector_same_element [OF 1 2 3 4] 1 2 3 show ?thesis by simp
qed

text \<open>
  On the example document the two selectors are \<open>[pjax-id="content"]\<close> and \<open>main\<close>.
\<close>

theorem swap_selector_differs_counterexample:
  "responseSelector exEngine exRequest exDocument = Inr (pjaxIdSelector ''content'', Some exMain) \<and>
   swapSelector exRequest = ''main'' \<and>
   pjaxIdSelector ''content'' \<noteq> swapSelector exRequest"
  by (simp add: responseSelector_def swapSelector_def querySelector_main exRequest_def
      exDocument_def exHeaderLink_def exMain_def getAttribute_def pjaxIdSelector_not_main)

subsection \<open>Reconciliation of a reply\<close>

lemma getNavigaitonRequest_update:
  "getNavigaitonRequest requestId q = Some r \<Longrightarrow> requestUid (f r) = requestId \<Longrightarrow>
   getNavigaitonRequest requestId (updateNavigationRequest requestId f q) = Some (f r)"
  by (induction q) (auto split: if_splits)

lemma uids_update:
  "(\<And>r. requestUid (f r) = requestUid r) \<Longrightarrow>
   map requestUid (updateNavigationRequest requestId f q) = map requestUid q"
  by (induction q) auto

lemma handlePjaxResponse_stale:
  assumes "activeRequestUid s \<noteq> Some requestId"
    and "getNavigaitonRequest requestId (navigationRequestQueue s) = Some r"
  shows "handlePjaxResponse engine parseHTML requestId status url' body' error' s =
     Inr (s\<lparr>navigationRequestQueue := removeNavigationRequest requestId (navigationRequestQueue s),
            effects := effects s @ (if status = ''ok'' then [] else [fetchFailed url' error'])\<rparr>)"
  using assms getNavigaitonRequest_Some_uid [OF assms(2)]
  by (simp add: handlePjaxResponse_def Let_def emit_def)

text \<open>
  A reply with status ok to the active request, once the request is found, the region
  selector is resolved and the incoming document is queried: with a region in both
  documents the parse message is sent and the fragment and title are stored on the
  request, otherwise the mismatch is logged and \<open>window.location.href\<close> is set.
\<close>

lemma handlePjaxResponse_ok:
  assumes "activeRequestUid s = Some requestId"
    and "getNavigaitonRequest requestId (navigationRequestQueue s) = Some r"
    and "responseSelector engine r (document s) = Inr (sel, cm)"
    and "querySelector engine sel (docElements (parseHTML (undefinedOr body'))) = Inr incoming"
  shows "handlePjaxResponse engine parseHTML requestId ''ok'' url' body' error' s =
     (case (incoming, cm) of
        (Some incomingMain, Some _) \<Rightarrow>
           Inr (s\<lparr>navigationRequestQueue :=
                    updateNavigationRequest requestId
                      (\<lambda>q. q\<lparr>body := Some (innerHTML incomingMain),
                              title := Some (docTitle (parseHTML (undefinedOr body')))\<rparr>)
                      (navigationRequestQueue s),
                  effects := effects s @ [RuntimeParse (innerHTML incomingMain) requestId]\<rparr>)
      | _ \<Rightarrow> Inr (s\<lparr>effects := effects s @
                  [ConsoleError ''Failed to find matching elements.'', LocationHref url']\<rparr>))"
  using assms
  by (simp add: handlePjaxResponse_def Let_def emit_def split: option.splits)

subsection \<open>The example states\<close>

lemma exLoaded_fields:
  "activeRequestUid exLoaded = Some ''a''"
  "navigationRequestQueue exLoaded = [exRequest]"
  "document exLoaded = exDocument"
  "effects exLoaded = [StartPageTransition, WorkerPostMessage (PjaxRequest ''a'' ''/about'' ''/'')]"
  by (simp_all add: exLoaded_def navigate_def exPjax_def exRequest_def emit_def Let_def)

lemma exDocument_region:
  "responseSelector engine exRequest exDocument = Inr (pjaxIdSelector ''content'', Some exMain)"
  by (simp add: responseSelector_def querySelector_main exRequest_def
      exDocument_def exHeaderLink_def exMain_def getAttribute_def)

text \<open>
  C6. A page without a \<open>main\<close> element, the request of a click without target, active
  and in the queue, and a reply with status ok whose document has no \<open>main\<close> element
  either: the handler raises a \<open>TypeError\<close> at \<open>currentMain.getAttribute\<close>, before the test
  of \<open>incomingMain\<close> and \<open>currentMain\<close>, where the claim has it log the mismatch and fall
  back to the full navigation. With a target selector, on the same page, the handler
  does log and fall back: with the same reply, and also with a reply whose document has
  the region, since the current document has none.
\<close>

theorem ok_reply_without_main_throws:
  "activeRequestUid exNoMain = Some ''a'' \<and>
   getNavigaitonRequest ''a'' (navigationRequestQueue exNoMain) = Some exRequest \<and>
   querySelector exEngine ''main'' (document exNoMain) = Inr None \<and>
   querySelector exEngine ''main'' (docElements (exParse ''bare'')) = Inr None \<and>
   handlePjaxResponse exEngine exParse ''a'' ''ok'' ''/about'' (Some ''bare'') None exNoMain =
     Inl TypeError \<and>
   handlePjaxResponse exEngine exParse ''a'' ''ok'' ''/about'' (Some ''bare'') None exTargeted =
     Inr (exTargeted\<lparr>effects := effects exTargeted @
            [ConsoleError ''Failed to find matching elements.'', LocationHref ''/about'']\<rparr>) \<and>
   querySelector exEngine (pjaxIdSelector ''content'') (docElements (exParse ''page'')) =
     Inr (Some exIncomingMain) \<and>
   handlePjaxResponse exEngine exParse ''a'' ''ok'' ''/about'' (Some ''page'') None exTargeted =
     Inr (exTargeted\<lparr>effects := effects exTargeted @
            [ConsoleError ''Failed to find matching elements.'', LocationHref ''/about'']\<rparr>)"
proof -
  have n: "activeRequestUid exNoMain = Some ''a''"
    "navigationRequestQueue exNoMain = [exRequest]"
    "document exNoMain = exNoMainDocument"
    by (simp_all add: exNoMain_def navigate_def exPjax_def exRequest_def emit_def Let_def)
  have t: "activeRequestUid exTargeted = Some ''a''"
    "navigationRequestQueue exTargeted = [exRequest\<lparr>targetSelector := Some ''content''\<rparr>]"
    "document exTargeted = exNoMainDocument"
    by (simp_all add: exTargeted_def navigate_def exPjax_def exRequest_def emit_def Let_def)
  have m: "querySelector exEngine ''main'' exNoMainDocument = Inr None"
    "querySelector exEngine ''main'' (docElements (exParse ''bare'')) = Inr None"
    by (simp_all add: querySelector_main exNoMainDocument_def exHeaderLink_def exParse_def
        exBareIncoming_def)
  have c: "querySelector exEngine (pjaxIdSelector ''content'') exNoMainDocument = Inr None"
    "querySelector exEngine (pjaxIdSelector ''content'') (docElements (exParse ''bare'')) = Inr None"
    by (simp_all add: querySelector_plain [OF plain_content] exNoMainDocument_def exHeaderLink_def
        exParse_def exBareIncoming_def getAttribute_def)
  have 1: "handlePjaxResponse exEngine exParse ''a'' ''ok'' ''/about'' (Some ''bare'') None exNoMain =
     Inl TypeError"
    by (simp add: handlePjaxResponse_def n m responseSelector_def Let_def undefinedOr_def
        exRequest_def)
  have 2: "handlePjaxResponse exEngine exParse ''a'' ''ok'' ''/about'' (Some ''bare'') None exTargeted =
     Inr (exTargeted\<lparr>effects := effects exTargeted @
            [ConsoleError ''Failed to find matching elements.'', LocationHref ''/about'']\<rparr>)"
    by (simp add: handlePjaxResponse_def t c responseSelector_def Let_def undefinedOr_def emit_def
        exRequest_def)
  have p: "querySelector exEngine (pjaxIdSelector ''content'') (docElements (exParse ''page'')) =
      Inr (Some exIncomingMain)"
    by (simp add: querySelector_plain [OF plain_content] exParse_def exIncoming_def
        exIncomingMain_def getAttribute_def)
  have 3: "handlePjaxResponse exEngine exParse ''a'' ''ok'' ''/about'' (Some ''page'') None exTargeted =
     Inr (exTargeted\<lparr>effects := effects exTargeted @
            [ConsoleError ''Failed to find matching elements.'', LocationHref ''/about'']\<rparr>)"
    by (simp add: handlePjaxResponse_def t c p responseSelector_def Let_def undefinedOr_def emit_def
        exRequest_def)
  from n m p 1 2 3 show ?thesis
    by simp (simp add: exRequest_def)
qed

subsection \<open>Removal from the queue\<close>

lemma length_remove:
  "getNavigaitonRequest requestId q = Some r \<Longrightarrow>
   length (removeNavigationRequest requestId q) + 1 = length q"
  by (induction q) (auto split: if_splits)

lemma distinct_remove:
  "distinct (map requestUid q) \<Longrightarrow> requestId \<notin> requestUid ` set (removeNavigationRequest requestId q)"
  by (induction q) auto

lemma uids_remove:
  "requestUid ` set q - {requestId} \<subseteq> requestUid ` set (removeNavigationRequest requestId q)"
  by (induction q) auto

lemma swapPjaxContent_found:
  assumes "getNavigaitonRequest requestUid' (navigationRequestQueue s) = Some r"
  shows "swapPjaxContent requestUid' s =
     Inr (s\<lparr>navigationRequestQueue := removeNavigationRequest requestUid' (navigationRequestQueue s),
            effects := effects s @
              (if activeRequestUid s = Some requestUid'
               then [EndPageTransition,
                     TransitionManager (swapSelector r) (body r) (transition r) (transitionData r)]
               else [])\<rparr>)"
  using assms getNavigaitonRequest_Some_uid [OF assms]
  by (auto simp add: swapPjaxContent_def Let_def emit_def)

lemma handlePjaxResponse_active_uids:
  assumes "activeRequestUid s = Some requestId"
    and "handlePjaxResponse engine parseHTML requestId status url' body' error' s = Inr s'"
  shows "map requestUid (navigationRequestQueue s') = map requestUid (navigationRequestQueue s)"
  using assms
  by (auto simp add: handlePjaxResponse_def Let_def emit_def uids_update
      split: if_splits sum.splits option.splits prod.splits)

lemma handlePjaxResponse_active_failure:
  assumes "activeRequestUid s = Some requestId" and "status \<noteq> ''ok''" and "status \<noteq> ''hash-change''"
  shows "handlePjaxResponse engine parseHTML requestId status url' body' error' s =
     Inr (s\<lparr>effects := effects s @
            (if status = ''external'' then [LocationHref url']
             else [fetchFailed url' error', LocationHref url'])\<rparr>)"
  using assms by (simp add: handlePjaxResponse_def Let_def emit_def)

text \<open>
  C3, amended. A request that is in the queue is removed, as one entry, by the reply that
  finds it stale and by \<open>swapPjaxContent\<close> (whether it swaps or not); with distinct
  identifiers it is then no longer in the queue. A reply to the active request with an
  external redirect or a fetch failure (any status but ok and hash-change) returns with
  the queue as it was, and a reply with status ok to the active request, matched or not,
  leaves the identifiers of the queue as they were: the request stays until
  \<open>css-ready\<close>, or until the full navigation that the handler has started.
\<close>

theorem request_removal:
  assumes "getNavigaitonRequest requestId (navigationRequestQueue s) = Some r"
  shows "length (removeNavigationRequest requestId (navigationRequestQueue s)) + 1 =
           length (navigationRequestQueue s) \<and>
         (distinct (map requestUid (navigationRequestQueue s)) \<longrightarrow>
            getNavigaitonRequest requestId
              (removeNavigationRequest requestId (navigationRequestQueue s)) = None) \<and>
         (activeRequestUid s \<noteq> Some requestId \<longrightarrow>
            (\<exists>s'. handlePjaxResponse engine parseHTML requestId status url' body' error' s = Inr s' \<and>
                  navigationRequestQueue s' =
                    removeNavigationRequest requestId (navigationRequestQueue s))) \<and>
         (\<exists>s'. swapPjaxContent requestId s = Inr s' \<and>
               navigationRequestQueue s' =
                 removeNavigationRequest requestId (navigationRequestQueue s)) \<and>
         (activeRequestUid s = Some requestId \<and> status \<noteq> ''ok'' \<and> status \<noteq> ''hash-change'' \<longrightarrow>
            (\<exists>s'. handlePjaxResponse engine parseHTML requestId status url' body' error' s = Inr s' \<and>
                  navigationRequestQueue s' = navigationRequestQueue s)) \<and>
         (activeRequestUid s = Some requestId \<longrightarrow>
            (\<forall>s'. handlePjaxResponse engine parseHTML requestId ''ok'' url' body' error' s = Inr s' \<longrightarrow>
                  map requestUid (navigationRequestQueue s') =
                    map requestUid (navigationRequestQueue s)))"
proof (intro conjI)
  show "length (removeNavigationRequest requestId (navigationRequestQueue s)) + 1 =
           length (navigationRequestQueue s)"
    by (rule length_remove [OF assms])
  show "distinct (map requestUid (navigationRequestQueue s)) \<longrightarrow>
            getNavigaitonRequest requestId
              (removeNavigationRequest requestId (navigationRequestQueue s)) = None"
    by (simp add: getNavigaitonRequest_None_iff distinct_remove)
  show "activeRequestUid s \<noteq> Some requestId \<longrightarrow>
            (\<exists>s'. handlePjaxResponse engine parseHTML requestId status url' body' error' s = Inr s' \<and>
                  navigationRequestQueue s' =
                    removeNavigationRequest requestId (navigationRequestQueue s))"
    by (simp add: handlePjaxResponse_stale [OF _ assms])
  show "\<exists>s'. swapPjaxContent requestId s = Inr s' \<and>
               navigationRequestQueue s' =
                 removeNavigationRequest requestId (navigationRequestQueue s)"
    by (simp add: swapPjaxContent_found [OF assms])
  show "activeRequestUid s = Some requestId \<and> status \<noteq> ''ok'' \<and> status \<noteq> ''hash-change'' \<longrightarrow>
            (\<exists>s'. handlePjaxResponse engine parseHTML requestId status url' body' error' s = Inr s' \<and>
                  navigationRequestQueue s' = navigationRequestQueue s)"
    by (simp add: handlePjaxResponse_active_failure)
  show "activeRequestUid s = Some requestId \<longrightarrow>
            (\<forall>s'. handlePjaxResponse engine parseHTML requestId ''ok'' url' body' error' s = Inr s' \<longrightarrow>
                  map requestUid (navigationRequestQueue s') =
                    map requestUid (navigationRequestQueue s))"
    using handlePjaxResponse_active_uids by blast
qed

lemma exTwo_fields:
  "activeRequestUid exTwo = Some ''b''"
  "navigationRequestQueue exTwo = [exRequest, exRequestB]"
  "document exTwo = exDocument"
  "effects exTwo = [StartPageTransition, WorkerPostMessage (PjaxRequest ''a'' ''/about'' ''/''),
                    StartPageTransition, WorkerPostMessage (PjaxRequest ''b'' ''/news'' ''/about'')]"
  by (simp_all add: exTwo_def navigate_def exLoaded_fields exRequestB_def emit_def Let_def)

lemma exLoaded_reply_ok:
  "handlePjaxResponse engine exParse ''a'' ''ok'' ''/about'' (Some ''page'') None exLoaded =
     Inr (exLoaded\<lparr>navigationRequestQueue := [exRequest\<lparr>body := Some ''NEW'', title := Some ''About''\<rparr>],
            effects := effects exLoaded @ [RuntimeParse ''NEW'' ''a'']\<rparr>)"
proof -
  have 1: "activeRequestUid exLoaded = Some ''a''" by (simp add: exLoaded_fields)
  have 2: "getNavigaitonRequest ''a'' (navigationRequestQueue exLoaded) = Some exRequest"
    by (simp add: exLoaded_fields) (simp add: exRequest_def)
  have 3: "responseSelector engine exRequest (document exLoaded) =
      Inr (pjaxIdSelector ''content'', Some exMain)"
    by (simp add: exLoaded_fields exDocument_region)
  have 4: "querySelector engine (pjaxIdSelector ''content'')
      (docElements (exParse (undefinedOr (Some ''page'')))) = Inr (Some exIncomingMain)"
    by (simp add: querySelector_plain [OF plain_content] exParse_def undefinedOr_def exIncoming_def
        exIncomingMain_def getAttribute_def)
  show ?thesis
    unfolding handlePjaxResponse_ok [where parseHTML = exParse and body' = "Some ''page''", OF 1 2 3 4]
    by (simp add: exLoaded_fields exIncomingMain_def exParse_def undefinedOr_def exIncoming_def)
      (simp add: exRequest_def)
qed

theorem request_removal_witness:
  "getNavigaitonRequest ''a'' (navigationRequestQueue exTwo) = Some exRequest \<and>
   getNavigaitonRequest ''b'' (navigationRequestQueue exTwo) = Some exRequestB \<and>
   distinct (map requestUid (navigationRequestQueue exTwo)) \<and>
   activeRequestUid exTwo \<noteq> Some ''a'' \<and> activeRequestUid exTwo = Some ''b'' \<and>
   removeNavigationRequest ''a'' (navigationRequestQueue exTwo) = [exRequestB] \<and>
   (\<exists>s'. handlePjaxResponse exEngine exParse ''a'' ''ok'' ''/about'' (Some ''page'') None exTwo = Inr s' \<and>
         navigationRequestQueue s' = [exRequestB]) \<and>
   (\<exists>s'. swapPjaxContent ''a'' exTwo = Inr s' \<and> navigationRequestQueue s' = [exRequestB]) \<and>
   (\<exists>s'. handlePjaxResponse exEngine exParse ''b'' ''external'' ''/news'' None None exTwo = Inr s' \<and>
         navigationRequestQueue s' = [exRequest, exRequestB]) \<and>
   getNavigaitonRequest ''a'' (navigationRequestQueue exLoaded) = Some exRequest \<and>
   activeRequestUid exLoaded = Some ''a'' \<and>
   map requestUid (navigationRequestQueue
     (exLoaded\<lparr>navigationRequestQueue := [exRequest\<lparr>body := Some ''NEW'', title := Some ''About''\<rparr>],
            effects := effects exLoaded @ [RuntimeParse ''NEW'' ''a'']\<rparr>)) = [''a'']"
proof -
  have a: "getNavigaitonRequest ''a'' (navigationRequestQueue exTwo) = Some exRequest"
    by (simp add: exTwo_fields) (simp add: exRequest_def)
  have b: "getNavigaitonRequest ''b'' (navigationRequestQueue exTwo) = Some exRequestB"
    by (simp add: exTwo_fields) (simp add: exRequest_def exRequestB_def)
  have c: "getNavigaitonRequest ''a'' (navigationRequestQueue exLoaded) = Some exRequest"
    by (simp add: exLoaded_fields) (simp add: exRequest_def)
  have d: "distinct (map requestUid (navigationRequestQueue exTwo))"
    by (simp add: exTwo_fields) (simp add: exRequest_def exRequestB_def)
  have r: "removeNavigationRequest ''a'' (navigationRequestQueue exTwo) = [exRequestB]"
    by (simp add: exTwo_fields) (simp add: exRequest_def)
  have e: "''external'' \<noteq> ''ok'' \<and> ''external'' \<noteq> ''hash-change''" by simp
  have u: "map requestUid (navigationRequestQueue exLoaded) = [''a'']"
    by (simp add: exLoaded_fields) (simp add: exRequest_def)
  from request_removal [OF a, where engine = exEngine and parseHTML = exParse and status = "''ok''" and url' = "''/about''"
      and body' = "Some ''page''" and error' = None]
    request_removal [OF b, where engine = exEngine and parseHTML = exParse and status = "''external''" and url' = "''/news''"
      and body' = None and error' = None]
    request_removal [OF c, where engine = exEngine and parseHTML = exParse and url' = "''/about''"
      and body' = "Some ''page''" and error' = None]
    a b c d r e u exTwo_fields(1,2) exLoaded_fields(1) exLoaded_reply_ok
  show ?thesis by simp
qed

text \<open>
  The request of the example click is answered with hash-change, respectively with
  external: the fragment, respectively the location, is set and the request stays in
  the queue; no parse message is sent, so that no \<open>css-ready\<close> will follow for it.
\<close>

theorem active_reply_keeps_request_counterexample:
  "navigationRequestQueue exLoaded = [exRequest] \<and>
   handlePjaxResponse exEngine exParse ''a'' ''hash-change'' ''/about#team'' None None exLoaded =
     Inr (exLoaded\<lparr>effects := effects exLoaded @ [LocationHash ''team'']\<rparr>) \<and>
   navigationRequestQueue (exLoaded\<lparr>effects := effects exLoaded @ [LocationHash ''team'']\<rparr>) =
     [exRequest] \<and>
   handlePjaxResponse exEngine exParse ''a'' ''external'' ''https://example.org/'' None None exLoaded =
     Inr (exLoaded\<lparr>effects := effects exLoaded @ [LocationHref ''https://example.org/'']\<rparr>) \<and>
   navigationRequestQueue (exLoaded\<lparr>effects := effects exLoaded @ [LocationHref ''https://example.org/'']\<rparr>) =
     [exRequest]"
  by (simp add: exLoaded_fields handlePjaxResponse_def hashFragment_def lineTerminator_def emit_def)

text \<open>
  C2. Two sequences after which \<open>css-ready\<close> names a request that is no longer in the
  queue: the request was swapped by an earlier \<open>css-ready\<close>, or its reply was found
  stale and removed it. In both \<open>swapPjaxContent\<close> raises a \<open>TypeError\<close>, where the
  claim has it fall through without throwing.
\<close>

theorem css_ready_without_request_throws:
  "run exEngine exParse [Reply ''a'' ''ok'' ''/about'' (Some ''page'') None, CssReady ''a''] exLoaded =
     exLoaded\<lparr>navigationRequestQueue := [],
              effects := effects exLoaded @
                [RuntimeParse ''NEW'' ''a'', EndPageTransition,
                 TransitionManager ''main'' (Some ''NEW'') (Some ''fade'') None]\<rparr> \<and>
   swapPjaxContent ''a''
     (run exEngine exParse [Reply ''a'' ''ok'' ''/about'' (Some ''page'') None, CssReady ''a''] exLoaded) =
     Inl TypeError \<and>
   run exEngine exParse [Reply ''a'' ''ok'' ''/about'' (Some ''page'') None] exTwo =
     exTwo\<lparr>navigationRequestQueue := [exRequestB]\<rparr> \<and>
   swapPjaxContent ''a'' (run exEngine exParse [Reply ''a'' ''ok'' ''/about'' (Some ''page'') None] exTwo) =
     Inl TypeError"
proof -
  have 1: "swapPjaxContent ''a''
      (exLoaded\<lparr>navigationRequestQueue := [exRequest\<lparr>body := Some ''NEW'', title := Some ''About''\<rparr>],
               effects := effects exLoaded @ [RuntimeParse ''NEW'' ''a'']\<rparr>) =
     Inr (exLoaded\<lparr>navigationRequestQueue := [],
              effects := effects exLoaded @
                [RuntimeParse ''NEW'' ''a'', EndPageTransition,
                 TransitionManager ''main'' (Some ''NEW'') (Some ''fade'') None]\<rparr>)"
    by (simp add: swapPjaxContent_def exLoaded_fields Let_def emit_def swapSelector_def exRequest_def)
  have 2: "handlePjaxResponse exEngine exParse ''a'' ''ok'' ''/about'' (Some ''page'') None exTwo =
     Inr (exTwo\<lparr>navigationRequestQueue := [exRequestB]\<rparr>)"
    by (simp add: handlePjaxResponse_def exTwo_fields Let_def emit_def) (simp add: exRequest_def)
  show ?thesis
    by (simp add: run_def exLoaded_reply_ok 1 2) (simp add: swapPjaxContent_def exRequestB_def)
qed

subsection \<open>Sequences of loads, replies and css-ready messages\<close>

lemma handlePjaxResponse_active:
  "handlePjaxResponse engine parseHTML requestId status url' body' error' s = Inr s' \<Longrightarrow>
   activeRequestUid s' = activeRequestUid s"
  by (auto simp add: handlePjaxResponse_def Let_def emit_def
      split: if_splits sum.splits option.splits prod.splits)

lemma handlePjaxResponse_uids:
  assumes "handlePjaxResponse engine parseHTML requestId status url' body' error' s = Inr s'"
  shows "requestUid ` set (navigationRequestQueue s) - {requestId}
           \<subseteq> requestUid ` set (navigationRequestQueue s')"
proof (cases "activeRequestUid s = Some requestId")
  case True
  from handlePjaxResponse_active_uids [OF True assms]
  have "set (map requestUid (navigationRequestQueue s')) = set (map requestUid (navigationRequestQueue s))"
    by simp
  then show ?thesis by auto
next
  case False
  with assms obtain r where r: "getNavigaitonRequest requestId (navigationRequestQueue s) = Some r"
    by (auto simp add: handlePjaxResponse_def Let_def split: option.splits)
  from assms handlePjaxResponse_stale [OF False r]
  have "navigationRequestQueue s' = removeNavigationRequest requestId (navigationRequestQueue s)"
    by auto
  then show ?thesis by (simp add: uids_remove)
qed

lemma step_active:
  "activeRequestUid (step engine parseHTML s e) =
     (case e of Load uuid _ _ _ _ _ _ \<Rightarrow> Some uuid | _ \<Rightarrow> activeRequestUid s)"
  by (cases e)
     (auto simp add: navigate_def emit_def Let_def handlePjaxResponse_active swapPjaxContent_def
       split: sum.splits option.splits)

lemma step_uids:
  "requestUid ` set (navigationRequestQueue (step engine parseHTML s e)) \<supseteq>
     (case e of
        Load uuid _ _ _ _ _ _ \<Rightarrow> insert uuid (requestUid ` set (navigationRequestQueue s))
      | Reply requestId _ _ _ _ \<Rightarrow> requestUid ` set (navigationRequestQueue s) - {requestId}
      | CssReady requestUid' \<Rightarrow> requestUid ` set (navigationRequestQueue s) - {requestUid'})"
proof (cases e)
  case (Load x11 x12 x13 x14 x15 x16 x17)
  then show ?thesis by (auto simp add: navigate_def emit_def Let_def)
next
  case (Reply x21 x22 x23 x24 x25)
  then show ?thesis
    using handlePjaxResponse_uids [of engine parseHTML x21 x22 x23 x24 x25 s]
    by (auto split: sum.splits)
next
  case (CssReady x3)
  show ?thesis
  proof (cases "getNavigaitonRequest x3 (navigationRequestQueue s)")
    case None
    with CssReady show ?thesis
      by (auto simp add: swapPjaxContent_def)
  next
    case (Some r)
    with CssReady uids_remove [of "navigationRequestQueue s" x3] show ?thesis
      by (auto simp add: swapPjaxContent_found [OF Some])
  qed
qed

lemma active_lastLoad:
  "activeRequestUid (foldl (step engine parseHTML) s evs) =
     (case lastLoad evs of None \<Rightarrow> activeRequestUid s | Some u \<Rightarrow> Some u)"
proof (induction evs arbitrary: s)
  case Nil
  then show ?case by simp
next
  case (Cons e evs)
  then show ?case
    by (cases e) (simp_all del: step.simps add: step_active split: option.splits)
qed

lemma reply_finds_request:
  "wellFormed issued answered (evs @ [Reply requestId status url' body' error']) \<Longrightarrow>
   set issued - set answered \<subseteq> requestUid ` set (navigationRequestQueue s) \<Longrightarrow>
   requestId \<in> requestUid ` set (navigationRequestQueue (foldl (step engine parseHTML) s evs))"
proof (induction evs arbitrary: s issued answered)
  case Nil
  then show ?case by auto
next
  case (Cons e evs)
  show ?case
  proof (cases e)
    case (Load x11 x12 x13 x14 x15 x16 x17)
    with Cons.prems have w: "wellFormed (x11 # issued) answered (evs @ [Reply requestId status url' body' error'])"
      by simp
    have "set (x11 # issued) - set answered \<subseteq> requestUid ` set (navigationRequestQueue (step engine parseHTML s e))"
      using Cons.prems(2) step_uids [where s = s and engine = engine and parseHTML = parseHTML and e = e] Load by auto
    from Cons.IH [OF w this] show ?thesis by simp
  next
    case (Reply x21 x22 x23 x24 x25)
    with Cons.prems have w: "wellFormed issued (x21 # answered) (evs @ [Reply requestId status url' body' error'])"
      by simp
    have "set issued - set (x21 # answered) \<subseteq> requestUid ` set (navigationRequestQueue (step engine parseHTML s e))"
      using Cons.prems(2) step_uids [where s = s and engine = engine and parseHTML = parseHTML and e = e] Reply by auto
    from Cons.IH [OF w this] show ?thesis by simp
  next
    case (CssReady x3)
    with Cons.prems have w: "wellFormed issued answered (evs @ [Reply requestId status url' body' error'])"
      and x: "x3 \<in> set answered"
      by simp_all
    have "set issued - set answered \<subseteq> requestUid ` set (navigationRequestQueue (step engine parseHTML s e))"
      using Cons.prems(2) step_uids [where s = s and engine = engine and parseHTML = parseHTML and e = e] CssReady x by auto
    from Cons.IH [OF w this] show ?thesis by simp
  qed
qed

lemma reply_has_load:
  "wellFormed issued answered (evs @ [Reply requestId status url' body' error']) \<Longrightarrow>
   requestId \<notin> set issued \<Longrightarrow> lastLoad evs \<noteq> None"
proof (induction evs arbitrary: issued answered)
  case Nil
  then show ?case by simp
next
  case (Cons e evs)
  then show ?case
    by (cases e) (auto split: option.splits)
qed


text \<open>
  C1. Start with an empty queue and let any well-formed sequence of loads, replies and
  css-ready messages be handled; let then a reply arrive for a request that is not the
  most recent load. The active identifier is that of the most recent load, the request
  of the reply is still in the queue, and the reply does exactly this: the request is
  removed and, unless the status is ok, one line is logged. No parse message is sent, so
  no swap follows from it. In the same state a \<open>css-ready\<close> for any identifier other
  than the active one, if its request is found, only removes that request: the
  transition manager is not called.
\<close>

theorem stale_reply_discarded:
  assumes "navigationRequestQueue s0 = []"
    and "wellFormed [] [] (evs @ [Reply requestId status url' body' error'])"
    and "lastLoad evs \<noteq> Some requestId"
  shows "(let s = run engine parseHTML evs s0 in
     activeRequestUid s = lastLoad evs \<and>
     requestId \<in> requestUid ` set (navigationRequestQueue s) \<and>
     handlePjaxResponse engine parseHTML requestId status url' body' error' s =
       Inr (s\<lparr>navigationRequestQueue := removeNavigationRequest requestId (navigationRequestQueue s),
              effects := effects s @ (if status = ''ok'' then [] else [fetchFailed url' error'])\<rparr>) \<and>
     isLog (fetchFailed url' error') \<and>
     (\<forall>uid s'. activeRequestUid s \<noteq> Some uid \<longrightarrow> swapPjaxContent uid s = Inr s' \<longrightarrow>
        s' = s\<lparr>navigationRequestQueue := removeNavigationRequest uid (navigationRequestQueue s)\<rparr>))"
proof -
  define s where "s = run engine parseHTML evs s0"
  from reply_has_load [OF assms(2)] obtain u where u: "lastLoad evs = Some u"
    by auto
  have active: "activeRequestUid s = lastLoad evs"
    by (simp add: s_def run_def active_lastLoad u)
  have "requestId \<in> requestUid ` set (navigationRequestQueue (foldl (step engine parseHTML) s0 evs))"
    by (rule reply_finds_request [OF assms(2)]) simp
  then have queued: "requestId \<in> requestUid ` set (navigationRequestQueue s)"
    by (simp add: s_def run_def)
  then obtain r where r: "getNavigaitonRequest requestId (navigationRequestQueue s) = Some r"
    using getNavigaitonRequest_None_iff [of requestId "navigationRequestQueue s"] by auto
  have stale: "activeRequestUid s \<noteq> Some requestId"
    using active assms(3) by simp
  have swap: "s' = s\<lparr>navigationRequestQueue := removeNavigationRequest uid (navigationRequestQueue s)\<rparr>"
    if "activeRequestUid s \<noteq> Some uid" and "swapPjaxContent uid s = Inr s'" for uid s'
  proof (cases "getNavigaitonRequest uid (navigationRequestQueue s)")
    case None
    with that(2) show ?thesis by (simp add: swapPjaxContent_def)
  next
    case (Some q)
    from that swapPjaxContent_found [OF Some] show ?thesis by simp
  qed
  have "isLog (fetchFailed url' error')"
    by (simp add: isLog_def fetchFailed_def)
  with active queued handlePjaxResponse_stale [OF stale r] swap show ?thesis
    unfolding s_def [symmetric] Let_def by blast
qed

theorem stale_reply_discarded_witness:
  "navigationRequestQueue exPjax = [] \<and>
   wellFormed [] []
     ([Load ''a'' ''/'' ''/about'' (Some ''fade'') None None None,
       Load ''b'' ''/about'' ''/news'' None None None None] @
      [Reply ''a'' ''404'' ''/about'' None (Some ''Not Found'')]) \<and>
   lastLoad [Load ''a'' ''/'' ''/about'' (Some ''fade'') None None None,
             Load ''b'' ''/about'' ''/news'' None None None None] = Some ''b'' \<and>
   run exEngine exParse [Load ''a'' ''/'' ''/about'' (Some ''fade'') None None None,
                Load ''b'' ''/about'' ''/news'' None None None None] exPjax = exTwo \<and>
   handlePjaxResponse exEngine exParse ''a'' ''404'' ''/about'' None (Some ''Not Found'') exTwo =
     Inr (exTwo\<lparr>navigationRequestQueue := [exRequestB],
            effects := effects exTwo @
              [ConsoleError ''Failed to fetch page: /about. Server responded with: Not Found'']\<rparr>) \<and>
   activeRequestUid exTwo \<noteq> Some ''a'' \<and>
   swapPjaxContent ''a'' exTwo = Inr (exTwo\<lparr>navigationRequestQueue := [exRequestB]\<rparr>)"
proof -
  have 1: "navigationRequestQueue exPjax = []" by (simp add: exPjax_def)
  have 2: "wellFormed [] []
     ([Load ''a'' ''/'' ''/about'' (Some ''fade'') None None None,
       Load ''b'' ''/about'' ''/news'' None None None None] @
      [Reply ''a'' ''404'' ''/about'' None (Some ''Not Found'')])"
    by simp
  have 3: "lastLoad [Load ''a'' ''/'' ''/about'' (Some ''fade'') None None None,
             Load ''b'' ''/about'' ''/news'' None None None None] \<noteq> Some ''a''"
    by simp
  have 4: "run exEngine exParse [Load ''a'' ''/'' ''/about'' (Some ''fade'') None None None,
                Load ''b'' ''/about'' ''/news'' None None None None] exPjax = exTwo"
    by (simp add: run_def exTwo_def exLoaded_def)
  have 5: "removeNavigationRequest ''a'' (navigationRequestQueue exTwo) = [exRequestB]"
    by (simp add: exTwo_fields) (simp add: exRequest_def)
  have 6: "activeRequestUid exTwo \<noteq> Some ''a''"
    by (simp add: exTwo_fields)
  have 7: "swapPjaxContent ''a'' exTwo = Inr (exTwo\<lparr>navigationRequestQueue := [exRequestB]\<rparr>)"
    by (simp add: swapPjaxContent_def exTwo_fields) (simp add: exRequest_def)
  from stale_reply_discarded [OF 1 2 3, where engine = exEngine and parseHTML = exParse] 1 2 4 5 6 7
  show ?thesis by (simp add: Let_def fetchFailed_def undefinedOr_def)
qed

end
